theory Spec2Isabelle
  imports Complex_Main "HOL-Library.Multiset"
begin

section \<open>Python values, errors and the object store\<close>

text \<open>
  Points are Python objects: class \<open>Point\<close> defines no \<open>__eq__\<close>, so \<open>self in medoids\<close>
  and \<open>self.nearest_medoid == medoid_to_change\<close> compare object identity. An object is
  therefore a reference into a store, and the store maps every reference to the
  object's fields.
\<close>

type_synonym ref = nat

datatype error = ValueError string | TypeError | IndexError | KeyError string

text \<open>
  The values the four assignment fields hold in the source: \<open>None\<close> (constructor),
  the \<open>np.nan\<close> object, a number, or a reference to a Point. Floats are read as reals.
\<close>

datatype pyval = PyNone | PyNan | PyNum real | PyRef ref

record 'c Point =
  idx :: int
  coordinates :: 'c
  nearest_medoid :: pyval
  nearest_medoid_distance :: pyval
  second_nearest_medoid :: pyval
  second_nearest_medoid_distance :: pyval

text \<open>\<open>Point.__init__\<close> (point.py, lines 7-15).\<close>

definition Point_init :: "int \<Rightarrow> 'c \<Rightarrow> 'c Point" where
  "Point_init i c =
     \<lparr>idx = i, coordinates = c,
      nearest_medoid = PyNone, nearest_medoid_distance = PyNone,
      second_nearest_medoid = PyNone, second_nearest_medoid_distance = PyNone\<rparr>"

text \<open>
  The world: the store of Point objects, and the log of the calls made to
  \<open>compute_distance\<close> (module \<open>clustering_algorithms.utils\<close>, a parameter \<open>dfun\<close> here).
\<close>

record 'c world =
  heap :: "ref \<Rightarrow> 'c Point"
  distance_calls :: "('c \<times> 'c) list"

definition compute_distance ::
  "('c \<Rightarrow> 'c \<Rightarrow> real) \<Rightarrow> 'c \<Rightarrow> 'c \<Rightarrow> 'c world \<Rightarrow> real \<times> 'c world" where
  "compute_distance dfun a b w =
     (dfun a b, w\<lparr>distance_calls := distance_calls w @ [(a, b)]\<rparr>)"

definition set_point :: "ref \<Rightarrow> ('c Point \<Rightarrow> 'c Point) \<Rightarrow> 'c world \<Rightarrow> 'c world" where
  "set_point r f w = w\<lparr>heap := (heap w)(r := f (heap w r))\<rparr>"

text \<open>
  Python's \<open>distance < field\<close>, \<open>distance >= field\<close> and \<open>a - b\<close> for a float on the
  left: a comparison with NaN is False, arithmetic with NaN is NaN, and \<open>None\<close> or an
  object on the right raises TypeError.
\<close>

fun py_lt :: "real \<Rightarrow> pyval \<Rightarrow> error + bool" where
  "py_lt d (PyNum x) = Inr (d < x)"
| "py_lt d PyNan = Inr False"
| "py_lt d PyNone = Inl TypeError"
| "py_lt d (PyRef r) = Inl TypeError"

fun py_ge :: "real \<Rightarrow> pyval \<Rightarrow> error + bool" where
  "py_ge d (PyNum x) = Inr (d \<ge> x)"
| "py_ge d PyNan = Inr False"
| "py_ge d PyNone = Inl TypeError"
| "py_ge d (PyRef r) = Inl TypeError"

fun py_sub :: "pyval \<Rightarrow> pyval \<Rightarrow> error + pyval" where
  "py_sub (PyNum a) (PyNum b) = Inr (PyNum (a - b))"
| "py_sub (PyNum a) PyNan = Inr PyNan"
| "py_sub PyNan (PyNum b) = Inr PyNan"
| "py_sub PyNan PyNan = Inr PyNan"
| "py_sub a b = Inl TypeError"

text \<open>
  Python's \<open>a <= b\<close> between two values of the distance fields, the comparison the
  spec states between the nearest and the second-nearest distance.
\<close>

fun py_le :: "pyval \<Rightarrow> pyval \<Rightarrow> error + bool" where
  "py_le (PyNum a) (PyNum b) = Inr (a \<le> b)"
| "py_le (PyNum a) PyNan = Inr False"
| "py_le PyNan (PyNum b) = Inr False"
| "py_le PyNan PyNan = Inr False"
| "py_le a b = Inl TypeError"

section \<open>Point.update_cluster_assignment\<close>

text \<open>The body of the \<open>for medoid in medoids\<close> loop (point.py, lines 32-49).\<close>

definition assignment_step ::
  "('c \<Rightarrow> 'c \<Rightarrow> real) \<Rightarrow> ref \<Rightarrow> ref \<Rightarrow> 'c world \<Rightarrow> (error + unit) \<times> 'c world" where
  "assignment_step dfun self medoid w =
     (let (distance, w1) =
            compute_distance dfun (coordinates (heap w self)) (coordinates (heap w medoid)) w;
          p = heap w1 self
      in case (if nearest_medoid p = PyNan then Inr True
               else py_lt distance (nearest_medoid_distance p)) of
           Inl e \<Rightarrow> (Inl e, w1)
         | Inr True \<Rightarrow>
             (Inr (),
              set_point self
                (\<lambda>q. q\<lparr>second_nearest_medoid := nearest_medoid q,
                        second_nearest_medoid_distance := nearest_medoid_distance q,
                        nearest_medoid := PyRef medoid,
                        nearest_medoid_distance := PyNum distance\<rparr>) w1)
         | Inr False \<Rightarrow>
             (case (if second_nearest_medoid p = PyNan then Inr True
                    else py_lt distance (second_nearest_medoid_distance p)) of
                Inl e \<Rightarrow> (Inl e, w1)
              | Inr True \<Rightarrow>
                  (Inr (),
                   set_point self
                     (\<lambda>q. q\<lparr>second_nearest_medoid := PyRef medoid,
                             second_nearest_medoid_distance := PyNum distance\<rparr>) w1)
              | Inr False \<Rightarrow> (Inr (), w1)))"

fun assignment_loop ::
  "('c \<Rightarrow> 'c \<Rightarrow> real) \<Rightarrow> ref \<Rightarrow> ref list \<Rightarrow> 'c world \<Rightarrow> (error + unit) \<times> 'c world" where
  "assignment_loop dfun self [] w = (Inr (), w)"
| "assignment_loop dfun self (m # ms) w =
     (case assignment_step dfun self m w of
        (Inl e, w') \<Rightarrow> (Inl e, w')
      | (Inr u, w') \<Rightarrow> assignment_loop dfun self ms w')"

text \<open>\<open>Point.update_cluster_assignment\<close> (point.py, lines 17-49).\<close>

definition update_cluster_assignment ::
  "('c \<Rightarrow> 'c \<Rightarrow> real) \<Rightarrow> ref \<Rightarrow> ref list \<Rightarrow> 'c world \<Rightarrow> (error + unit) \<times> 'c world" where
  "update_cluster_assignment dfun self medoids w =
     (if self \<in> set medoids
      then (Inr (), set_point self (\<lambda>q. q\<lparr>nearest_medoid := PyRef self\<rparr>) w)
      else assignment_loop dfun self medoids
             (set_point self
                (\<lambda>q. q\<lparr>nearest_medoid := PyNan, nearest_medoid_distance := PyNan,
                        second_nearest_medoid := PyNan,
                        second_nearest_medoid_distance := PyNan\<rparr>) w))"

section \<open>Point.compute_medoid_replacement_cost\<close>

text \<open>\<open>Point.compute_medoid_replacement_cost\<close> (point.py, lines 51-85).\<close>

definition compute_medoid_replacement_cost ::
  "('c \<Rightarrow> 'c \<Rightarrow> real) \<Rightarrow> ref \<Rightarrow> ref \<Rightarrow> ref \<Rightarrow> ref list \<Rightarrow> 'c world
     \<Rightarrow> (error + pyval) \<times> 'c world" where
  "compute_medoid_replacement_cost dfun self medoid_to_change new_medoid medoids w =
     (if self \<in> set medoids then (Inr (PyNum 0), w)
      else
        let (new_medoid_distance, w1) =
              compute_distance dfun (coordinates (heap w self))
                (coordinates (heap w new_medoid)) w;
            p = heap w1 self
        in if nearest_medoid p = PyRef medoid_to_change
           then (case py_ge new_medoid_distance (second_nearest_medoid_distance p) of
                   Inl e \<Rightarrow> (Inl e, w1)
                 | Inr True \<Rightarrow>
                     (py_sub (second_nearest_medoid_distance p) (nearest_medoid_distance p), w1)
                 | Inr False \<Rightarrow>
                     (py_sub (PyNum new_medoid_distance) (nearest_medoid_distance p), w1))
           else (case py_ge new_medoid_distance (nearest_medoid_distance p) of
                   Inl e \<Rightarrow> (Inl e, w1)
                 | Inr True \<Rightarrow> (Inr (PyNum 0), w1)
                 | Inr False \<Rightarrow>
                     (py_sub (PyNum new_medoid_distance) (nearest_medoid_distance p), w1)))"

section \<open>The orchestrator KMedoidsAlgorithm\<close>

record KMedoidsAlgorithm =
  points :: "ref list"
  clusters_num :: int
  labels :: "string list option"
  medoids_indices :: "int list"

subsection \<open>The standard library: random.sample and list.remove\<close>

text \<open>
  The process-wide random generator is an explicit value: the stream of its future raw
  draws. \<open>random.sample(population, k)\<close> raises ValueError unless \<open>0 <= k <= n\<close>, and
  otherwise picks \<open>k\<close> elements at pairwise different positions: the library's pool
  loop draws \<open>j\<close> below the number of live positions, takes \<open>pool[j]\<close> and moves the
  last live element into position \<open>j\<close>.
\<close>

type_synonym rng = "nat \<Rightarrow> nat"

definition randbelow :: "nat \<Rightarrow> rng \<Rightarrow> nat \<times> rng" where
  "randbelow n g = (g 0 mod n, \<lambda>i. g (Suc i))"

fun sample_pool :: "'a list \<Rightarrow> nat \<Rightarrow> rng \<Rightarrow> 'a list \<times> rng" where
  "sample_pool pool 0 g = ([], g)"
| "sample_pool pool (Suc k) g =
     (let n = length pool;
          (j, g1) = randbelow n g;
          (rest, g2) = sample_pool (butlast (pool[j := pool ! (n - 1)])) k g1
      in (pool ! j # rest, g2))"

definition sample_error :: error where
  "sample_error = ValueError ''Sample larger than population or is negative''"

definition random_sample :: "'a list \<Rightarrow> int \<Rightarrow> rng \<Rightarrow> (error + 'a list) \<times> rng" where
  "random_sample population k g =
     (if \<not> (0 \<le> k \<and> k \<le> int (length population)) then (Inl sample_error, g)
      else let (result, g') = sample_pool population (nat k) g in (Inr result, g'))"

text \<open>\<open>list.remove(x)\<close> deletes the first occurrence and raises ValueError when there is none.\<close>

definition remove_error :: error where
  "remove_error = ValueError ''list.remove(x): x not in list''"

definition list_remove :: "'a \<Rightarrow> 'a list \<Rightarrow> error + 'a list" where
  "list_remove x xs = (if x \<in> set xs then Inr (remove1 x xs) else Inl remove_error)"

subsection \<open>Construction\<close>

text \<open>\<open>get_initial_medoids_indices\<close> (k_medoids_algorithm.py, lines 26-43).\<close>

definition get_initial_medoids_indices ::
  "'c world \<Rightarrow> ref list \<Rightarrow> int \<Rightarrow> rng \<Rightarrow> (error + int list) \<times> rng" where
  "get_initial_medoids_indices w source_points k g =
     (let points_indices = map (\<lambda>point. idx (heap w point)) source_points
      in random_sample points_indices k g)"

text \<open>
  The guard of \<open>__init__\<close>: \<open>labels and not len(labels) == clusters_num\<close>.
  \<open>None\<close> and the empty list are both false in a condition.
\<close>

definition labels_error :: error where
  "labels_error =
     ValueError ''Number of labels needs to be the same as the number of clusters.''"

definition truthy :: "string list option \<Rightarrow> bool" where
  "truthy ls = (case ls of None \<Rightarrow> False | Some xs \<Rightarrow> xs \<noteq> [])"

definition labels_len :: "string list option \<Rightarrow> int" where
  "labels_len ls = (case ls of None \<Rightarrow> 0 | Some xs \<Rightarrow> int (length xs))"

text \<open>\<open>KMedoidsAlgorithm.__init__\<close> (k_medoids_algorithm.py, lines 10-24).\<close>

definition KMedoidsAlgorithm_init ::
  "'c world \<Rightarrow> ref list \<Rightarrow> int \<Rightarrow> string list option \<Rightarrow> rng
     \<Rightarrow> (error + KMedoidsAlgorithm) \<times> rng" where
  "KMedoidsAlgorithm_init w pts k ls g =
     (if truthy ls \<and> \<not> (labels_len ls = k) then (Inl labels_error, g)
      else case get_initial_medoids_indices w pts k g of
             (Inl e, g') \<Rightarrow> (Inl e, g')
           | (Inr ms, g') \<Rightarrow>
               (Inr \<lparr>points = pts, clusters_num = k, labels = ls, medoids_indices = ms\<rparr>,
                g'))"

subsection \<open>Medoids, reassignment and swap\<close>




text \<open>\<open>swap_medoids\<close> (k_medoids_algorithm.py, lines 107-113).\<close>

definition swap_medoids ::
  "'c world \<Rightarrow> KMedoidsAlgorithm \<Rightarrow> ref \<Rightarrow> ref \<Rightarrow> (error + unit) \<times> KMedoidsAlgorithm" where
  "swap_medoids w alg old_medoid new_medoid =
     (case list_remove (idx (heap w old_medoid)) (medoids_indices alg) of
        Inl e \<Rightarrow> (Inl e, alg)
      | Inr ms \<Rightarrow> (Inr (), alg\<lparr>medoids_indices := ms @ [idx (heap w new_medoid)]\<rparr>))"

subsection \<open>Labels and the result table\<close>












section \<open>Auxiliary notions for the proofs\<close>

text \<open>The world after one more logged call of the distance function.\<close>

definition log_call :: "'c Point \<Rightarrow> 'c Point \<Rightarrow> 'c world \<Rightarrow> 'c world" where
  "log_call p q w = w\<lparr>distance_calls := distance_calls w @ [(coordinates p, coordinates q)]\<rparr>"

text \<open>
  The loop invariant of the scan: the fields of the point hold the two smallest of the
  distances seen so far, and NaN where fewer have been seen.
\<close>

definition tracks :: "'c Point \<Rightarrow> real list \<Rightarrow> bool" where
  "tracks p ds =
     (case take 2 (sort ds) of
        [] \<Rightarrow> nearest_medoid p = PyNan \<and> nearest_medoid_distance p = PyNan \<and>
              second_nearest_medoid p = PyNan \<and> second_nearest_medoid_distance p = PyNan
      | [a] \<Rightarrow> (\<exists>r. nearest_medoid p = PyRef r) \<and> nearest_medoid_distance p = PyNum a \<and>
              second_nearest_medoid p = PyNan \<and> second_nearest_medoid_distance p = PyNan
      | a # b # _ \<Rightarrow> (\<exists>r. nearest_medoid p = PyRef r) \<and> nearest_medoid_distance p = PyNum a \<and>
              (\<exists>r. second_nearest_medoid p = PyRef r) \<and>
              second_nearest_medoid_distance p = PyNum b)"

text \<open>
  The invariant of the medoid list: as many entries as clusters, no identifier twice,
  every identifier that of a point of the collection.
\<close>

definition medoids_invariant :: "'c world \<Rightarrow> KMedoidsAlgorithm \<Rightarrow> bool" where
  "medoids_invariant w alg \<longleftrightarrow>
     int (length (medoids_indices alg)) = clusters_num alg \<and>
     distinct (medoids_indices alg) \<and>
     set (medoids_indices alg) \<subseteq> (\<lambda>point. idx (heap w point)) ` set (points alg)"


section \<open>A worked example\<close>

text \<open>
  Four points on a line, A at 0, B at 10, C at 5 and D at 20, stored at the references
  0 to 3 with their reference as identifier, and the distance of the line.
\<close>

definition line_distance :: "real \<Rightarrow> real \<Rightarrow> real" where
  "line_distance a b = \<bar>a - b\<bar>"

definition example_heap :: "ref \<Rightarrow> real Point" where
  "example_heap r =
     Point_init (int r) (if r = 0 then 0 else if r = 1 then 10 else if r = 2 then 5 else 20)"

definition example_world :: "real world" where
  "example_world = \<lparr>heap = example_heap, distance_calls = []\<rparr>"


definition example_alg :: KMedoidsAlgorithm where
  "example_alg = \<lparr>points = [0, 1, 2, 3], clusters_num = 2, labels = None,
                  medoids_indices = [0, 1]\<rparr>"

section \<open>The scan keeps the two smallest distances\<close>

lemma sort_snoc: "sort (ds @ [d]) = insort d (sort (ds::real list))"
  by (rule properties_for_sort) (simp_all add: sorted_insort)

lemma take2_insort:
  "sorted (xs::real list) \<Longrightarrow> take 2 (insort d xs) = take 2 (insort d (take 2 xs))"
proof (cases xs)
  case Nil then show ?thesis by simp
next
  case (Cons a ys)
  assume s: "sorted xs"
  show ?thesis
  proof (cases ys)
    case Nil with Cons show ?thesis by simp
  next
    case (Cons b zs)
    with \<open>xs = a # ys\<close> show ?thesis by (simp add: numeral_2_eq_2)
  qed
qed

lemma take2_sort_snoc:
  "take 2 (sort (ds @ [d])) = take 2 (insort d (take 2 (sort (ds::real list))))"
  unfolding sort_snoc by (rule take2_insort) simp

lemma step_demote:
  assumes "nearest_medoid (heap w self) = PyNan \<or>
           (\<exists>a. nearest_medoid_distance (heap w self) = PyNum a \<and>
                dfun (coordinates (heap w self)) (coordinates (heap w m)) < a)"
  shows "assignment_step dfun self m w =
           (Inr (), set_point self
              (\<lambda>q. q\<lparr>second_nearest_medoid := nearest_medoid q,
                      second_nearest_medoid_distance := nearest_medoid_distance q,
                      nearest_medoid := PyRef m,
                      nearest_medoid_distance :=
                        PyNum (dfun (coordinates (heap w self)) (coordinates (heap w m)))\<rparr>)
              (log_call (heap w self) (heap w m) w))"
  using assms
  by (auto simp add: assignment_step_def compute_distance_def log_call_def Let_def)

lemma step_second:
  assumes "nearest_medoid (heap w self) \<noteq> PyNan"
      and "nearest_medoid_distance (heap w self) = PyNum a"
      and "\<not> dfun (coordinates (heap w self)) (coordinates (heap w m)) < a"
      and "second_nearest_medoid (heap w self) = PyNan \<or>
           (\<exists>b. second_nearest_medoid_distance (heap w self) = PyNum b \<and>
                dfun (coordinates (heap w self)) (coordinates (heap w m)) < b)"
  shows "assignment_step dfun self m w =
           (Inr (), set_point self
              (\<lambda>q. q\<lparr>second_nearest_medoid := PyRef m,
                      second_nearest_medoid_distance :=
                        PyNum (dfun (coordinates (heap w self)) (coordinates (heap w m)))\<rparr>)
              (log_call (heap w self) (heap w m) w))"
  using assms
  by (auto simp add: assignment_step_def compute_distance_def log_call_def Let_def)

lemma step_keep:
  assumes "nearest_medoid (heap w self) \<noteq> PyNan"
      and "nearest_medoid_distance (heap w self) = PyNum a"
      and "\<not> dfun (coordinates (heap w self)) (coordinates (heap w m)) < a"
      and "second_nearest_medoid (heap w self) \<noteq> PyNan"
      and "second_nearest_medoid_distance (heap w self) = PyNum b"
      and "\<not> dfun (coordinates (heap w self)) (coordinates (heap w m)) < b"
  shows "assignment_step dfun self m w = (Inr (), log_call (heap w self) (heap w m) w)"
  using assms
  by (auto simp add: assignment_step_def compute_distance_def log_call_def Let_def)


lemma step_tracks:
  assumes "tracks (heap w self) ds"
  shows "fst (assignment_step dfun self m w) = Inr () \<and>
         tracks (heap (snd (assignment_step dfun self m w)) self)
           (ds @ [dfun (coordinates (heap w self)) (coordinates (heap w m))]) \<and>
         (\<forall>r. coordinates (heap (snd (assignment_step dfun self m w)) r) =
              coordinates (heap w r)) \<and>
         (\<forall>r. idx (heap (snd (assignment_step dfun self m w)) r) = idx (heap w r)) \<and>
         (\<forall>r. r \<noteq> self \<longrightarrow> heap (snd (assignment_step dfun self m w)) r = heap w r)"
proof -
  define d where "d = dfun (coordinates (heap w self)) (coordinates (heap w m))"
  define p where "p = heap w self"
  obtain xs where xs: "take 2 (sort ds) = xs" by simp
  have len: "length xs \<le> 2" using xs by auto
  have srt: "sorted xs" using xs sorted_wrt_take [of "(\<le>)" "sort ds" 2] by auto
  consider (none) "xs = []" | (one) a where "xs = [a]" | (two) a b where "xs = [a, b]" "a \<le> b"
  proof (cases xs)
    case Nil then show ?thesis using none by simp
  next
    case (Cons a ys)
    then show ?thesis using one two len srt by (cases ys) auto
  qed
  then show ?thesis
  proof cases
    case none
    with assms xs have "nearest_medoid (heap w self) = PyNan"
      by (simp add: tracks_def)
    from step_demote [where w=w and self=self and dfun=dfun and m=m] this assms xs none show ?thesis
      by (simp add: tracks_def take2_sort_snoc set_point_def log_call_def)
  next
    case one
    with assms xs have f: "\<exists>r. nearest_medoid (heap w self) = PyRef r"
      "nearest_medoid_distance (heap w self) = PyNum a"
      "second_nearest_medoid (heap w self) = PyNan"
      by (simp_all add: tracks_def)
    show ?thesis
    proof (cases "d < a")
      case True
      with f have "nearest_medoid (heap w self) = PyNan \<or>
           (\<exists>a. nearest_medoid_distance (heap w self) = PyNum a \<and>
                dfun (coordinates (heap w self)) (coordinates (heap w m)) < a)"
        by (simp add: d_def)
      from step_demote [where w=w and self=self and dfun=dfun and m=m] this f True xs one show ?thesis
        by (auto simp add: tracks_def take2_sort_snoc set_point_def log_call_def d_def)
    next
      case False
      from f have n: "nearest_medoid (heap w self) \<noteq> PyNan" by auto
      from step_second [where w=w and self=self and dfun=dfun and m=m and a=a] n f False xs one
      show ?thesis
        by (auto simp add: tracks_def take2_sort_snoc set_point_def log_call_def d_def)
    qed
  next
    case two
    with assms xs have f: "\<exists>r. nearest_medoid (heap w self) = PyRef r"
      "nearest_medoid_distance (heap w self) = PyNum a"
      "\<exists>r. second_nearest_medoid (heap w self) = PyRef r"
      "second_nearest_medoid_distance (heap w self) = PyNum b"
      by (simp_all add: tracks_def)
    from f have n: "nearest_medoid (heap w self) \<noteq> PyNan"
      and n2: "second_nearest_medoid (heap w self) \<noteq> PyNan" by auto
    show ?thesis
    proof (cases "d < a")
      case True
      with f have "nearest_medoid (heap w self) = PyNan \<or>
           (\<exists>a. nearest_medoid_distance (heap w self) = PyNum a \<and>
                dfun (coordinates (heap w self)) (coordinates (heap w m)) < a)"
        by (simp add: d_def)
      from step_demote [where w=w and self=self and dfun=dfun and m=m] this f True xs two show ?thesis
        by (auto simp add: tracks_def take2_sort_snoc set_point_def log_call_def d_def)
    next
      case False
      show ?thesis
      proof (cases "d < b")
        case True
        with f have "second_nearest_medoid (heap w self) = PyNan \<or>
           (\<exists>b. second_nearest_medoid_distance (heap w self) = PyNum b \<and>
                dfun (coordinates (heap w self)) (coordinates (heap w m)) < b)"
          by (simp add: d_def)
        from step_second [where w=w and self=self and dfun=dfun and m=m and a=a] this n f True False xs two
        show ?thesis
          by (auto simp add: tracks_def take2_sort_snoc set_point_def log_call_def d_def)
      next
        case nb: False
        from step_keep [where w=w and self=self and dfun=dfun and m=m and a=a and b=b] n n2
          f False nb xs two
        show ?thesis
          by (auto simp add: tracks_def take2_sort_snoc set_point_def log_call_def d_def)
      qed
    qed
  qed
qed

lemma loop_tracks:
  assumes "tracks (heap w self) ds"
  shows "fst (assignment_loop dfun self ms w) = Inr () \<and>
         tracks (heap (snd (assignment_loop dfun self ms w)) self)
           (ds @ map (\<lambda>m. dfun (coordinates (heap w self)) (coordinates (heap w m))) ms) \<and>
         (\<forall>r. coordinates (heap (snd (assignment_loop dfun self ms w)) r) =
              coordinates (heap w r)) \<and>
         (\<forall>r. idx (heap (snd (assignment_loop dfun self ms w)) r) = idx (heap w r)) \<and>
         (\<forall>r. r \<noteq> self \<longrightarrow> heap (snd (assignment_loop dfun self ms w)) r = heap w r)"
  using assms
proof (induction ms arbitrary: w ds)
  case Nil
  then show ?case by simp
next
  case (Cons m ms)
  obtain o1 w1 where s: "assignment_step dfun self m w = (o1, w1)" by (cases "assignment_step dfun self m w")
  from step_tracks [where w=w and self=self and ds=ds and dfun=dfun and m=m] Cons.prems s
  have o1: "o1 = Inr ()"
    and t1: "tracks (heap w1 self) (ds @ [dfun (coordinates (heap w self)) (coordinates (heap w m))])"
    and c1: "\<And>r. coordinates (heap w1 r) = coordinates (heap w r)"
    and i1: "\<And>r. idx (heap w1 r) = idx (heap w r)"
    and h1: "\<And>r. r \<noteq> self \<Longrightarrow> heap w1 r = heap w r"
    by simp_all
  from Cons.IH [where w=w1, OF t1] s o1 c1 i1 h1 show ?case by simp
qed

lemma sorted_hd_Min: "sorted (xs::real list) \<Longrightarrow> xs \<noteq> [] \<Longrightarrow> xs ! 0 = Min (set xs)"
  by (cases xs) (auto intro!: Min_eqI [symmetric])

lemma sort_nth0_Min: "ds \<noteq> [] \<Longrightarrow> sort ds ! 0 = Min (set (ds::real list))"
proof -
  assume "ds \<noteq> []"
  then have "length (sort ds) \<noteq> 0" by simp
  then have "sort ds \<noteq> []" by (simp only: length_0_conv not_False_eq_True)
  with sorted_hd_Min [of "sort ds"] show ?thesis by simp
qed

lemma take2_two: "2 \<le> length xs \<Longrightarrow> take 2 xs = [xs ! 0, xs ! 1]"
  by (cases xs; cases "tl xs") (auto simp add: numeral_2_eq_2)

lemma take2_one: "length xs = 1 \<Longrightarrow> take 2 xs = [xs ! 0]"
  by (cases xs) auto

lemma tracks_one:
  assumes "tracks p ds" "length ds = 1"
  shows "nearest_medoid_distance p = PyNum (Min (set ds)) \<and>
         second_nearest_medoid p = PyNan \<and> second_nearest_medoid_distance p = PyNan \<and>
         (\<exists>r. nearest_medoid p = PyRef r)"
proof -
  from assms(2) have "length (sort ds) = 1" by simp
  then have "take 2 (sort ds) = [sort ds ! 0]" by (rule take2_one)
  moreover from assms(2) have "ds \<noteq> []" by auto
  ultimately show ?thesis using assms(1) by (simp add: tracks_def sort_nth0_Min)
qed

lemma tracks_two:
  assumes "tracks p ds" "2 \<le> length ds"
  shows "nearest_medoid_distance p = PyNum (Min (set ds)) \<and>
         second_nearest_medoid_distance p = PyNum (sort ds ! 1) \<and>
         Min (set ds) \<le> sort ds ! 1 \<and>
         (\<exists>r. nearest_medoid p = PyRef r) \<and> (\<exists>r. second_nearest_medoid p = PyRef r)"
proof -
  from assms(2) have "2 \<le> length (sort ds)" by simp
  then have t: "take 2 (sort ds) = [sort ds ! 0, sort ds ! 1]" by (rule take2_two)
  from assms(2) have ne: "ds \<noteq> []" by auto
  have "sorted (sort ds)" by simp
  with assms(2) have "sort ds ! 0 \<le> sort ds ! 1"
    by (simp add: sorted_iff_nth_mono)
  with t ne show ?thesis using assms(1) by (simp add: tracks_def sort_nth0_Min)
qed

lemma reset_tracks:
  "tracks (heap (set_point self
                (\<lambda>q. q\<lparr>nearest_medoid := PyNan, nearest_medoid_distance := PyNan,
                        second_nearest_medoid := PyNan,
                        second_nearest_medoid_distance := PyNan\<rparr>) w) self) []"
  by (simp add: tracks_def set_point_def)

lemma update_non_medoid:
  assumes "self \<notin> set medoids"
  shows "fst (update_cluster_assignment dfun self medoids w) = Inr () \<and>
         tracks (heap (snd (update_cluster_assignment dfun self medoids w)) self)
           (map (\<lambda>m. dfun (coordinates (heap w self)) (coordinates (heap w m))) medoids) \<and>
         (\<forall>r. coordinates (heap (snd (update_cluster_assignment dfun self medoids w)) r) =
              coordinates (heap w r)) \<and>
         (\<forall>r. idx (heap (snd (update_cluster_assignment dfun self medoids w)) r) = idx (heap w r)) \<and>
         (\<forall>r. r \<noteq> self \<longrightarrow> heap (snd (update_cluster_assignment dfun self medoids w)) r = heap w r)"
proof -
  let ?w0 = "set_point self
                (\<lambda>q. q\<lparr>nearest_medoid := PyNan, nearest_medoid_distance := PyNan,
                        second_nearest_medoid := PyNan,
                        second_nearest_medoid_distance := PyNan\<rparr>) w"
  have c: "\<And>r. coordinates (heap ?w0 r) = coordinates (heap w r)"
    and i: "\<And>r. idx (heap ?w0 r) = idx (heap w r)"
    and h: "\<And>r. r \<noteq> self \<Longrightarrow> heap ?w0 r = heap w r"
    by (simp_all add: set_point_def)
  from loop_tracks [where w="?w0" and self=self and ds="[]" and dfun=dfun and ms=medoids,
      OF reset_tracks] assms c i h
  show ?thesis by (simp add: update_cluster_assignment_def)
qed

section \<open>The branches of the replacement cost\<close>

lemma cost_medoid:
  "self \<in> set medoids \<Longrightarrow>
   compute_medoid_replacement_cost dfun self old new medoids w = (Inr (PyNum 0), w)"
  by (simp add: compute_medoid_replacement_cost_def)

lemma cost_replaced:
  assumes "self \<notin> set medoids" and "nearest_medoid (heap w self) = PyRef old"
    and "nearest_medoid_distance (heap w self) = PyNum a"
    and "second_nearest_medoid_distance (heap w self) = PyNum b"
  shows "compute_medoid_replacement_cost dfun self old new medoids w =
           (Inr (PyNum (min b (dfun (coordinates (heap w self)) (coordinates (heap w new))) - a)),
            log_call (heap w self) (heap w new) w)"
  using assms
  by (auto simp add: compute_medoid_replacement_cost_def compute_distance_def log_call_def
      Let_def min_def)

lemma cost_replaced_alone:
  assumes "self \<notin> set medoids" and "nearest_medoid (heap w self) = PyRef old"
    and "nearest_medoid_distance (heap w self) = PyNum a"
    and "second_nearest_medoid_distance (heap w self) = PyNan"
  shows "compute_medoid_replacement_cost dfun self old new medoids w =
           (Inr (PyNum (dfun (coordinates (heap w self)) (coordinates (heap w new)) - a)),
            log_call (heap w self) (heap w new) w)"
  using assms
  by (auto simp add: compute_medoid_replacement_cost_def compute_distance_def log_call_def
      Let_def)

lemma cost_kept:
  assumes "self \<notin> set medoids" and "nearest_medoid (heap w self) \<noteq> PyRef old"
    and "nearest_medoid_distance (heap w self) = PyNum a"
  shows "compute_medoid_replacement_cost dfun self old new medoids w =
           (Inr (PyNum (if dfun (coordinates (heap w self)) (coordinates (heap w new)) < a
                        then dfun (coordinates (heap w self)) (coordinates (heap w new)) - a
                        else 0)),
            log_call (heap w self) (heap w new) w)"
  using assms
  by (auto simp add: compute_medoid_replacement_cost_def compute_distance_def log_call_def
      Let_def)

section \<open>Evaluating the worked example\<close>

lemma ex_heap [simp]:
  "example_heap 0 = Point_init 0 0" "example_heap (Suc 0) = Point_init 1 10"
  "example_heap 2 = Point_init 2 5" "example_heap 3 = Point_init 3 20"
  by (simp_all add: example_heap_def)

section \<open>Properties of Point\<close>

text \<open>
  C1. After \<open>update_cluster_assignment\<close> against a medoid list that contains
  \<open>old\<close> and not \<open>new\<close>, \<open>compute_medoid_replacement_cost\<close> returns 0 for a point of
  the list; for any other point, with \<open>d_new\<close> its distance to \<open>new\<close>, it returns
  \<open>min second d_new - nearest\<close> when the nearest medoid is \<open>old\<close> and the list has at
  least two medoids, and otherwise \<open>d_new - nearest\<close> if \<open>d_new < nearest\<close> and 0 if not.
\<close>

theorem replacement_cost_after_assignment:
  assumes "old \<in> set medoids" and "new \<notin> set medoids"
  shows "let w1 = snd (update_cluster_assignment dfun self medoids w);
             p = heap w1 self;
             d_new = dfun (coordinates p) (coordinates (heap w1 new));
             result = fst (compute_medoid_replacement_cost dfun self old new medoids w1)
         in (self \<in> set medoids \<longrightarrow> result = Inr (PyNum 0)) \<and>
            (self \<notin> set medoids \<and> nearest_medoid p = PyRef old \<and> 2 \<le> length medoids \<longrightarrow>
               (\<exists>a b. nearest_medoid_distance p = PyNum a \<and>
                      second_nearest_medoid_distance p = PyNum b \<and>
                      result = Inr (PyNum (min b d_new - a)))) \<and>
            (self \<notin> set medoids \<and> nearest_medoid p \<noteq> PyRef old \<longrightarrow>
               (\<exists>a. nearest_medoid_distance p = PyNum a \<and>
                    result = Inr (PyNum (if d_new < a then d_new - a else 0))))"
proof -
  let ?w1 = "snd (update_cluster_assignment dfun self medoids w)"
  let ?ds = "map (\<lambda>m. dfun (coordinates (heap w self)) (coordinates (heap w m))) medoids"
  have a: "self \<in> set medoids \<Longrightarrow>
      fst (compute_medoid_replacement_cost dfun self old new medoids ?w1) = Inr (PyNum 0)"
    by (simp add: cost_medoid)
  have b: "\<exists>a b. nearest_medoid_distance (heap ?w1 self) = PyNum a \<and>
                 second_nearest_medoid_distance (heap ?w1 self) = PyNum b \<and>
                 fst (compute_medoid_replacement_cost dfun self old new medoids ?w1) =
                 Inr (PyNum (min b (dfun (coordinates (heap ?w1 self))
                                     (coordinates (heap ?w1 new))) - a))"
    if n: "self \<notin> set medoids" and o: "nearest_medoid (heap ?w1 self) = PyRef old"
      and l: "2 \<le> length medoids"
  proof -
    from update_non_medoid [OF n, of dfun w] have "tracks (heap ?w1 self) ?ds" by simp
    from tracks_two [OF this] l
    have 1: "nearest_medoid_distance (heap ?w1 self) = PyNum (Min (set ?ds))"
      and 2: "second_nearest_medoid_distance (heap ?w1 self) = PyNum (sort ?ds ! 1)"
      by simp_all
    from cost_replaced [OF n o 1 2, of dfun new] 1 2 show ?thesis by simp
  qed
  have c: "\<exists>a. nearest_medoid_distance (heap ?w1 self) = PyNum a \<and>
               fst (compute_medoid_replacement_cost dfun self old new medoids ?w1) =
               Inr (PyNum (if dfun (coordinates (heap ?w1 self)) (coordinates (heap ?w1 new)) < a
                           then dfun (coordinates (heap ?w1 self)) (coordinates (heap ?w1 new)) - a
                           else 0))"
    if n: "self \<notin> set medoids" and o: "nearest_medoid (heap ?w1 self) \<noteq> PyRef old"
  proof -
    from assms(1) have ne: "medoids \<noteq> []" by auto
    from update_non_medoid [OF n, of dfun w] have t: "tracks (heap ?w1 self) ?ds" by simp
    from ne have "length medoids \<noteq> 0" by simp
    then have "length ?ds = 1 \<or> 2 \<le> length ?ds" by (simp only: length_map) arith
    with tracks_one [OF t] tracks_two [OF t]
    have 1: "nearest_medoid_distance (heap ?w1 self) = PyNum (Min (set ?ds))" by blast
    from cost_kept [OF n o 1, of dfun new] 1 show ?thesis by simp
  qed
  from a b c show ?thesis unfolding Let_def by blast
qed

theorem replacement_cost_after_assignment_witness:
  "(1::nat) \<in> set [0, 1] \<and> (2::nat) \<notin> set [0, 1] \<and> (3::nat) \<notin> set [0, 1] \<and>
   fst (compute_medoid_replacement_cost line_distance 0 1 2 [0, 1]
          (snd (update_cluster_assignment line_distance 0 [0, 1] example_world))) =
     Inr (PyNum 0) \<and>
   fst (compute_medoid_replacement_cost line_distance 3 1 2 [0, 1]
          (snd (update_cluster_assignment line_distance 3 [0, 1] example_world))) =
     Inr (PyNum 5) \<and>
   fst (compute_medoid_replacement_cost line_distance 2 1 3 [0, 1]
          (snd (update_cluster_assignment line_distance 2 [0, 1] example_world))) =
     Inr (PyNum 0)"
  using replacement_cost_after_assignment [of 1 "[0, 1]" 2 line_distance 0 example_world]
    replacement_cost_after_assignment [of 1 "[0, 1]" 2 line_distance 3 example_world]
    replacement_cost_after_assignment [of 1 "[0, 1]" 3 line_distance 2 example_world]
  by (simp add: Let_def example_world_def update_cluster_assignment_def assignment_step_def
      compute_distance_def set_point_def compute_medoid_replacement_cost_def Point_init_def
      line_distance_def)

text \<open>
  C2, as the code has it. For a point outside a non-empty medoid list,
  \<open>update_cluster_assignment\<close> returns normally and leaves in \<open>nearest_medoid_distance\<close>
  the minimum of the distances to the medoids of the list. With two medoids or more,
  \<open>second_nearest_medoid_distance\<close> is the second entry of the sorted distances and
  \<open>nearest_medoid_distance <= second_nearest_medoid_distance\<close> holds. With exactly one
  medoid both second-nearest fields stay at the unassigned marker NaN, and the
  comparison with it is false.
\<close>

theorem update_cluster_assignment_top2:
  assumes "self \<notin> set medoids" and "medoids \<noteq> []"
  shows "let ds = map (\<lambda>m. dfun (coordinates (heap w self)) (coordinates (heap w m))) medoids;
             p = heap (snd (update_cluster_assignment dfun self medoids w)) self
         in fst (update_cluster_assignment dfun self medoids w) = Inr () \<and>
            nearest_medoid_distance p = PyNum (Min (set ds)) \<and>
            (2 \<le> length medoids \<longrightarrow>
               second_nearest_medoid_distance p = PyNum (sort ds ! 1) \<and>
               Min (set ds) \<le> sort ds ! 1 \<and>
               py_le (nearest_medoid_distance p) (second_nearest_medoid_distance p) = Inr True) \<and>
            (length medoids = 1 \<longrightarrow>
               second_nearest_medoid p = PyNan \<and> second_nearest_medoid_distance p = PyNan \<and>
               py_le (nearest_medoid_distance p) (second_nearest_medoid_distance p) = Inr False)"
proof -
  let ?ds = "map (\<lambda>m. dfun (coordinates (heap w self)) (coordinates (heap w m))) medoids"
  let ?p = "heap (snd (update_cluster_assignment dfun self medoids w)) self"
  from update_non_medoid [OF assms(1), of dfun w]
  have ok: "fst (update_cluster_assignment dfun self medoids w) = Inr ()"
    and t: "tracks ?p ?ds" by simp_all
  from assms(2) have "length medoids \<noteq> 0" by simp
  then have "length medoids = 1 \<or> 2 \<le> length medoids" by arith
  then show ?thesis
  proof
    assume l: "length medoids = 1"
    with tracks_one [OF t] ok show ?thesis by (simp add: Let_def)
  next
    assume l: "2 \<le> length medoids"
    with tracks_two [OF t] ok show ?thesis by (simp add: Let_def)
  qed
qed

theorem update_cluster_assignment_top2_witness:
  "2 \<notin> set [0, 1::nat] \<and> [0, 1::nat] \<noteq> [] \<and> 3 \<notin> set [0::nat] \<and> [0::nat] \<noteq> [] \<and>
   nearest_medoid_distance
     (heap (snd (update_cluster_assignment line_distance 2 [0, 1] example_world)) 2) = PyNum 5 \<and>
   second_nearest_medoid_distance
     (heap (snd (update_cluster_assignment line_distance 2 [0, 1] example_world)) 2) = PyNum 5 \<and>
   nearest_medoid_distance
     (heap (snd (update_cluster_assignment line_distance 3 [0] example_world)) 3) = PyNum 20 \<and>
   second_nearest_medoid
     (heap (snd (update_cluster_assignment line_distance 3 [0] example_world)) 3) = PyNan \<and>
   second_nearest_medoid_distance
     (heap (snd (update_cluster_assignment line_distance 3 [0] example_world)) 3) = PyNan"
  using update_cluster_assignment_top2 [of 2 "[0, 1]" line_distance example_world]
    update_cluster_assignment_top2 [of 3 "[0]" line_distance example_world]
  by (simp add: Let_def example_world_def Point_init_def line_distance_def)

text \<open>
  C2 as stated fails: after an assignment of point D against the single medoid A the
  nearest distance is 20, the second-nearest distance is NaN, and
  \<open>nearest_medoid_distance <= second_nearest_medoid_distance\<close> is false.
\<close>

theorem single_medoid_second_not_above:
  "(3::nat) \<notin> set [0] \<and> [0::nat] \<noteq> [] \<and>
   fst (update_cluster_assignment line_distance 3 [0] example_world) = Inr () \<and>
   nearest_medoid_distance
     (heap (snd (update_cluster_assignment line_distance 3 [0] example_world)) 3) = PyNum 20 \<and>
   second_nearest_medoid_distance
     (heap (snd (update_cluster_assignment line_distance 3 [0] example_world)) 3) = PyNan \<and>
   py_le
     (nearest_medoid_distance
        (heap (snd (update_cluster_assignment line_distance 3 [0] example_world)) 3))
     (second_nearest_medoid_distance
        (heap (snd (update_cluster_assignment line_distance 3 [0] example_world)) 3)) = Inr False"
  by (simp add: Let_def example_world_def update_cluster_assignment_def assignment_step_def
      compute_distance_def set_point_def Point_init_def line_distance_def)

text \<open>
  C3, as the code has it. For a point of the medoid list, \<open>update_cluster_assignment\<close>
  sets \<open>nearest_medoid\<close> to the point itself, calls the distance function not once, and
  leaves every other field of the point, and every other point, as it was. The two
  distance fields are therefore \<open>None\<close> only if they were \<open>None\<close> before the call.
\<close>

theorem update_cluster_assignment_medoid:
  assumes "self \<in> set medoids"
  shows "let w' = snd (update_cluster_assignment dfun self medoids w)
         in fst (update_cluster_assignment dfun self medoids w) = Inr () \<and>
            nearest_medoid (heap w' self) = PyRef self \<and>
            distance_calls w' = distance_calls w \<and>
            nearest_medoid_distance (heap w' self) = nearest_medoid_distance (heap w self) \<and>
            second_nearest_medoid (heap w' self) = second_nearest_medoid (heap w self) \<and>
            second_nearest_medoid_distance (heap w' self) =
              second_nearest_medoid_distance (heap w self) \<and>
            idx (heap w' self) = idx (heap w self) \<and>
            coordinates (heap w' self) = coordinates (heap w self) \<and>
            (\<forall>r. r \<noteq> self \<longrightarrow> heap w' r = heap w r)"
  using assms by (simp add: update_cluster_assignment_def set_point_def)

theorem update_cluster_assignment_medoid_witness:
  "(0::nat) \<in> set [0, 1] \<and>
   fst (update_cluster_assignment line_distance 0 [0, 1] example_world) = Inr () \<and>
   nearest_medoid (heap (snd (update_cluster_assignment line_distance 0 [0, 1] example_world)) 0)
     = PyRef 0 \<and>
   distance_calls (snd (update_cluster_assignment line_distance 0 [0, 1] example_world)) = [] \<and>
   nearest_medoid_distance
     (heap (snd (update_cluster_assignment line_distance 0 [0, 1] example_world)) 0) = PyNone \<and>
   second_nearest_medoid_distance
     (heap (snd (update_cluster_assignment line_distance 0 [0, 1] example_world)) 0) = PyNone \<and>
   heap (snd (update_cluster_assignment line_distance 0 [0, 1] example_world)) 1 =
     example_heap 1"
  using update_cluster_assignment_medoid [of 0 "[0, 1]" line_distance example_world]
  by (simp add: Let_def example_world_def Point_init_def)

text \<open>
  C3 as stated fails: point C, assigned against the medoids A and B and then made a
  medoid itself, keeps the distance 5 in both distance fields.
\<close>

theorem medoid_keeps_stale_distances:
  "(2::nat) \<in> set [0, 2] \<and>
   nearest_medoid_distance
     (heap (snd (update_cluster_assignment line_distance 2 [0, 2]
                   (snd (update_cluster_assignment line_distance 2 [0, 1] example_world)))) 2)
     = PyNum 5 \<and>
   second_nearest_medoid_distance
     (heap (snd (update_cluster_assignment line_distance 2 [0, 2]
                   (snd (update_cluster_assignment line_distance 2 [0, 1] example_world)))) 2)
     = PyNum 5 \<and>
   PyNum 5 \<noteq> PyNone \<and> PyNum 5 \<noteq> PyNan"
  by (simp add: Let_def example_world_def update_cluster_assignment_def assignment_step_def
      compute_distance_def set_point_def Point_init_def line_distance_def)

text \<open>
  C4. \<open>compute_medoid_replacement_cost\<close> leaves the store of points as it found it,
  whatever its arguments and whether it returns or raises: all six fields of every
  point are unchanged.
\<close>

theorem replacement_cost_leaves_points:
  "heap (snd (compute_medoid_replacement_cost dfun self old new medoids w)) = heap w"
  by (simp add: compute_medoid_replacement_cost_def compute_distance_def Let_def
      split: sum.splits bool.splits)

text \<open>
  C10. For a point outside the medoid list whose nearest medoid is \<open>old\<close>, whose
  nearest distance is a number and whose second-nearest fields are still NaN (the
  state an assignment against a single medoid leaves),
  \<open>compute_medoid_replacement_cost\<close> returns \<open>d_new - nearest_medoid_distance\<close>: the
  comparison \<open>d_new >= NaN\<close> is false, so the fallback branch is never taken.
\<close>

theorem replacement_cost_single_medoid:
  assumes "self \<notin> set medoids"
    and "nearest_medoid (heap w self) = PyRef old"
    and "nearest_medoid_distance (heap w self) = PyNum a"
    and "second_nearest_medoid (heap w self) = PyNan"
    and "second_nearest_medoid_distance (heap w self) = PyNan"
  shows "fst (compute_medoid_replacement_cost dfun self old new medoids w) =
           Inr (PyNum (dfun (coordinates (heap w self)) (coordinates (heap w new)) - a))"
  using cost_replaced_alone [OF assms(1,2,3,5), of dfun new] by simp

theorem replacement_cost_single_medoid_witness:
  "(2::nat) \<notin> set [0] \<and>
   nearest_medoid (heap (snd (update_cluster_assignment line_distance 2 [0] example_world)) 2)
     = PyRef 0 \<and>
   nearest_medoid_distance
     (heap (snd (update_cluster_assignment line_distance 2 [0] example_world)) 2) = PyNum 5 \<and>
   second_nearest_medoid
     (heap (snd (update_cluster_assignment line_distance 2 [0] example_world)) 2) = PyNan \<and>
   second_nearest_medoid_distance
     (heap (snd (update_cluster_assignment line_distance 2 [0] example_world)) 2) = PyNan \<and>
   fst (compute_medoid_replacement_cost line_distance 2 0 3 [0]
          (snd (update_cluster_assignment line_distance 2 [0] example_world))) =
     Inr (PyNum 10)"
  using replacement_cost_single_medoid [of 2 "[0]"
      "snd (update_cluster_assignment line_distance 2 [0] example_world)" 0 5 line_distance 3]
  by (simp add: Let_def example_world_def update_cluster_assignment_def assignment_step_def
      compute_distance_def set_point_def Point_init_def line_distance_def)

section \<open>Sampling without replacement\<close>

lemma pool_step_mset:
  assumes "j < length pool"
  shows "add_mset (pool ! j) (mset (butlast (pool[j := pool ! (length pool - 1)]))) = mset pool"
proof -
  let ?n = "length pool"
  let ?u = "pool[j := pool ! (?n - 1)]"
  from assms have ne: "?u \<noteq> []" by auto
  have "last ?u = ?u ! (length ?u - 1)" using ne by (rule last_conv_nth)
  also have "\<dots> = pool ! (?n - 1)" using assms by (simp add: nth_list_update)
  finally have l: "last ?u = pool ! (?n - 1)" .
  have "mset ?u = add_mset (last ?u) (mset (butlast ?u))"
    using ne by (metis append_butlast_last_id mset.simps(2) mset_append union_mset_add_mset_right add.right_neutral mset.simps(1))
  moreover from assms have "mset ?u = add_mset (pool ! (?n - 1)) (mset pool - {#pool ! j#})"
    by (simp add: mset_update)
  ultimately have "mset (butlast ?u) = mset pool - {#pool ! j#}" using l by simp
  moreover from assms have "pool ! j \<in># mset pool" by simp
  ultimately show ?thesis by simp
qed

lemma sample_pool_props:
  "k \<le> length pool \<Longrightarrow>
   length (fst (sample_pool pool k g)) = k \<and> mset (fst (sample_pool pool k g)) \<subseteq># mset pool"
proof (induction k arbitrary: pool g)
  case 0
  then show ?case by simp
next
  case (Suc k)
  let ?n = "length pool"
  let ?j = "g 0 mod ?n"
  let ?pool' = "butlast (pool[?j := pool ! (?n - 1)])"
  from Suc.prems have pos: "0 < ?n" by arith
  then have j: "?j < ?n" by simp
  from Suc.prems have "k \<le> length ?pool'" by simp
  from Suc.IH [OF this, of "\<lambda>i. g (Suc i)"]
  have len: "length (fst (sample_pool ?pool' k (\<lambda>i. g (Suc i)))) = k"
    and sub: "mset (fst (sample_pool ?pool' k (\<lambda>i. g (Suc i)))) \<subseteq># mset ?pool'"
    by simp_all
  from sub have "add_mset (pool ! ?j) (mset (fst (sample_pool ?pool' k (\<lambda>i. g (Suc i)))))
      \<subseteq># add_mset (pool ! ?j) (mset ?pool')" by simp
  with pool_step_mset [OF j] len show ?case
    by (simp add: randbelow_def Let_def split_beta)
qed

lemma sub_mset_distinct:
  assumes "mset xs \<subseteq># mset ys" "distinct ys"
  shows "distinct xs"
proof -
  from assms(2) have "\<And>a. count (mset ys) a \<le> 1" by (simp add: distinct_count_atmost_1)
  moreover from assms(1) have "\<And>a. count (mset xs) a \<le> count (mset ys) a"
    by (simp add: mset_subset_eq_count)
  ultimately have "\<And>a. count (mset xs) a \<le> 1" using le_trans by blast
  then show ?thesis unfolding distinct_count_atmost_1 by (auto simp add: count_eq_zero_iff le_Suc_eq)
qed

section \<open>The outcomes of construction\<close>

lemma init_labels_mismatch:
  "truthy ls \<Longrightarrow> labels_len ls \<noteq> k \<Longrightarrow>
   KMedoidsAlgorithm_init w pts k ls g = (Inl labels_error, g)"
  by (simp add: KMedoidsAlgorithm_init_def)

lemma init_bad_count:
  "\<not> (truthy ls \<and> labels_len ls \<noteq> k) \<Longrightarrow> k < 0 \<or> int (length pts) < k \<Longrightarrow>
   KMedoidsAlgorithm_init w pts k ls g = (Inl sample_error, g)"
  by (auto simp add: KMedoidsAlgorithm_init_def get_initial_medoids_indices_def
      random_sample_def)

lemma init_good:
  "\<not> (truthy ls \<and> labels_len ls \<noteq> k) \<Longrightarrow> 0 \<le> k \<Longrightarrow> k \<le> int (length pts) \<Longrightarrow>
   fst (KMedoidsAlgorithm_init w pts k ls g) =
     Inr \<lparr>points = pts, clusters_num = k, labels = ls,
          medoids_indices =
            fst (sample_pool (map (\<lambda>point. idx (heap w point)) pts) (nat k) g)\<rparr>"
  by (auto simp add: KMedoidsAlgorithm_init_def get_initial_medoids_indices_def
      random_sample_def Let_def split_beta)

lemma init_result:
  assumes "fst (KMedoidsAlgorithm_init w pts k ls g) = Inr alg"
  shows "0 \<le> k \<and> k \<le> int (length pts) \<and>
         alg = \<lparr>points = pts, clusters_num = k, labels = ls,
                medoids_indices =
                  fst (sample_pool (map (\<lambda>point. idx (heap w point)) pts) (nat k) g)\<rparr>"
  using assms
  by (auto simp add: KMedoidsAlgorithm_init_def get_initial_medoids_indices_def
      random_sample_def Let_def split_beta split: if_splits)

lemma errors_differ: "labels_error \<noteq> sample_error"
  by (simp add: labels_error_def sample_error_def)

lemma sample_example: "fst (sample_pool [0, 1, 2, 3::int] 2 (\<lambda>i. i)) = [0, 1]"
  by (simp add: numeral_2_eq_2 randbelow_def Let_def)

lemma example_construction:
  "fst (KMedoidsAlgorithm_init example_world [0, 1, 2, 3] 2 None (\<lambda>i. i)) = Inr example_alg"
  by (simp add: KMedoidsAlgorithm_init_def get_initial_medoids_indices_def random_sample_def
      truthy_def example_world_def example_alg_def Point_init_def numeral_2_eq_2
      randbelow_def Let_def)

section \<open>Properties of the orchestrator\<close>

text \<open>
  The spec names its errors \<open>ConfigurationError\<close>, \<open>InsufficientPointsError\<close> and
  \<open>InvalidSwapError\<close>. The code raises ValueError at each of the three places, from
  the guard of \<open>__init__\<close>, from \<open>random.sample\<close> and from \<open>list.remove\<close>; they are
  told apart here by their messages: \<open>labels_error\<close>, \<open>sample_error\<close>, \<open>remove_error\<close>.
\<close>

text \<open>
  C5, as the code has it. For points with pairwise different identifiers, a
  successful construction leaves \<open>medoids_indices\<close> with \<open>clusters_num\<close> entries, no
  identifier twice, all of them identifiers of points. A swap whose \<open>old_medoid\<close> is a
  current medoid keeps the length for every \<open>new_medoid\<close>, and keeps the whole invariant
  when \<open>new_medoid\<close> is a point of the collection that is not a current medoid (or is
  \<open>old_medoid\<close> again).
\<close>

theorem medoids_indices_invariant:
  "(distinct (map (\<lambda>point. idx (heap w point)) pts) \<and>
    fst (KMedoidsAlgorithm_init w pts k ls g) = Inr alg0 \<longrightarrow> medoids_invariant w alg0) \<and>
   (idx (heap w old) \<in> set (medoids_indices alg) \<longrightarrow>
      length (medoids_indices (snd (swap_medoids w alg old new))) =
        length (medoids_indices alg)) \<and>
   (medoids_invariant w alg \<and> idx (heap w old) \<in> set (medoids_indices alg) \<and>
    new \<in> set (points alg) \<and>
    (idx (heap w new) \<notin> set (medoids_indices alg) \<or> idx (heap w new) = idx (heap w old)) \<longrightarrow>
      fst (swap_medoids w alg old new) = Inr () \<and>
      medoids_invariant w (snd (swap_medoids w alg old new)))"
proof (intro conjI impI)
  assume a: "distinct (map (\<lambda>point. idx (heap w point)) pts) \<and>
    fst (KMedoidsAlgorithm_init w pts k ls g) = Inr alg0"
  let ?ids = "map (\<lambda>point. idx (heap w point)) pts"
  from a init_result [of w pts k ls g alg0]
  have k: "0 \<le> k" "k \<le> int (length pts)"
    and alg0: "alg0 = \<lparr>points = pts, clusters_num = k, labels = ls,
                medoids_indices = fst (sample_pool ?ids (nat k) g)\<rparr>" by simp_all
  from k have "nat k \<le> length ?ids" by simp
  from sample_pool_props [OF this, of g]
  have len: "length (fst (sample_pool ?ids (nat k) g)) = nat k"
    and sub: "mset (fst (sample_pool ?ids (nat k) g)) \<subseteq># mset ?ids" by simp_all
  from sub a have d: "distinct (fst (sample_pool ?ids (nat k) g))"
    by (blast intro: sub_mset_distinct)
  from sub have "set (fst (sample_pool ?ids (nat k) g)) \<subseteq> set ?ids"
    by (metis set_mset_mono set_mset_mset)
  with len d k alg0 show "medoids_invariant w alg0"
    by (simp add: medoids_invariant_def)
next
  assume m: "idx (heap w old) \<in> set (medoids_indices alg)"
  then have "0 < length (medoids_indices alg)" by (cases "medoids_indices alg") auto
  with m show "length (medoids_indices (snd (swap_medoids w alg old new))) =
        length (medoids_indices alg)"
    by (simp add: swap_medoids_def list_remove_def length_remove1)
next
  assume a: "medoids_invariant w alg \<and> idx (heap w old) \<in> set (medoids_indices alg) \<and>
    new \<in> set (points alg) \<and>
    (idx (heap w new) \<notin> set (medoids_indices alg) \<or> idx (heap w new) = idx (heap w old))"
  then show "fst (swap_medoids w alg old new) = Inr ()"
    by (simp add: swap_medoids_def list_remove_def)
next
  assume a: "medoids_invariant w alg \<and> idx (heap w old) \<in> set (medoids_indices alg) \<and>
    new \<in> set (points alg) \<and>
    (idx (heap w new) \<notin> set (medoids_indices alg) \<or> idx (heap w new) = idx (heap w old))"
  let ?ms = "medoids_indices alg"
  from a have inv: "int (length ?ms) = clusters_num alg" "distinct ?ms"
    "set ?ms \<subseteq> (\<lambda>point. idx (heap w point)) ` set (points alg)"
    by (simp_all add: medoids_invariant_def)
  from a have mem: "idx (heap w old) \<in> set ?ms" by simp
  then have pos: "0 < length ?ms" by (cases ?ms) auto
  have sw: "snd (swap_medoids w alg old new) =
      alg\<lparr>medoids_indices := remove1 (idx (heap w old)) ?ms @ [idx (heap w new)]\<rparr>"
    using mem by (simp add: swap_medoids_def list_remove_def)
  have l: "length (remove1 (idx (heap w old)) ?ms @ [idx (heap w new)]) = length ?ms"
    using mem pos by (simp add: length_remove1)
  have fresh: "idx (heap w new) \<notin> set (remove1 (idx (heap w old)) ?ms)"
    using a inv(2) by auto
  have d: "distinct (remove1 (idx (heap w old)) ?ms @ [idx (heap w new)])"
    using inv(2) fresh by simp
  have s: "set (remove1 (idx (heap w old)) ?ms @ [idx (heap w new)])
      \<subseteq> (\<lambda>point. idx (heap w point)) ` set (points alg)"
    using inv(3) a set_remove1_subset [of "idx (heap w old)" ?ms] by auto
  from l d s inv(1) show "medoids_invariant w (snd (swap_medoids w alg old new))"
    unfolding sw by (simp add: medoids_invariant_def)
qed

theorem medoids_indices_invariant_witness:
  "distinct (map (\<lambda>point. idx (heap example_world point)) [0, 1, 2, 3]) \<and>
   fst (KMedoidsAlgorithm_init example_world [0, 1, 2, 3] 2 None (\<lambda>i. i)) = Inr example_alg \<and>
   medoids_invariant example_world example_alg \<and>
   idx (heap example_world 1) \<in> set (medoids_indices example_alg) \<and>
   3 \<in> set (points example_alg) \<and>
   idx (heap example_world 3) \<notin> set (medoids_indices example_alg) \<and>
   fst (swap_medoids example_world example_alg 1 3) = Inr () \<and>
   medoids_indices (snd (swap_medoids example_world example_alg 1 3)) = [0, 3] \<and>
   medoids_invariant example_world (snd (swap_medoids example_world example_alg 1 3))"
proof -
  have d: "distinct (map (\<lambda>point. idx (heap example_world point)) [0, 1, 2, 3])"
    by (simp add: example_world_def Point_init_def)
  have m: "idx (heap example_world 1) \<in> set (medoids_indices example_alg)"
    "3 \<in> set (points example_alg)"
    "idx (heap example_world 3) \<notin> set (medoids_indices example_alg)"
    by (simp_all add: example_world_def example_alg_def Point_init_def)
  have r: "medoids_indices (snd (swap_medoids example_world example_alg 1 3)) = [0, 3]"
    by (simp add: swap_medoids_def list_remove_def example_world_def example_alg_def
        Point_init_def)
  from medoids_indices_invariant [where w=example_world and pts="[0, 1, 2, 3]" and k=2
      and ls=None and g="\<lambda>i. i" and ?alg0.0=example_alg and old=1 and alg=example_alg and new=3]
    d example_construction m r
  show ?thesis by simp
qed

text \<open>
  C5 as stated fails: with the medoids A and B, swapping A out for B, a point of the
  collection, succeeds and leaves the identifier of B twice in \<open>medoids_indices\<close>.
\<close>

theorem swap_medoids_duplicates:
  "fst (KMedoidsAlgorithm_init example_world [0, 1, 2, 3] 2 None (\<lambda>i. i)) = Inr example_alg \<and>
   idx (heap example_world 0) \<in> set (medoids_indices example_alg) \<and>
   1 \<in> set (points example_alg) \<and>
   fst (swap_medoids example_world example_alg 0 1) = Inr () \<and>
   medoids_indices (snd (swap_medoids example_world example_alg 0 1)) = [1, 1] \<and>
   \<not> distinct (medoids_indices (snd (swap_medoids example_world example_alg 0 1)))"
  using example_construction
  by (simp add: swap_medoids_def list_remove_def example_world_def example_alg_def
      Point_init_def)

text \<open>
  C6. When the identifier of \<open>old_medoid\<close> is not in \<open>medoids_indices\<close>, \<open>swap_medoids\<close>
  raises the error of \<open>list.remove\<close> and the orchestrator is unchanged; when it is,
  the call succeeds, its first occurrence is removed and the identifier of
  \<open>new_medoid\<close> is appended, so that for a duplicate-free list the old identifier is
  gone and the new one is in.
\<close>

theorem swap_medoids_result:
  "(idx (heap w old) \<notin> set (medoids_indices alg) \<longrightarrow>
      swap_medoids w alg old new = (Inl remove_error, alg)) \<and>
   (idx (heap w old) \<in> set (medoids_indices alg) \<longrightarrow>
      swap_medoids w alg old new =
        (Inr (), alg\<lparr>medoids_indices :=
                      remove1 (idx (heap w old)) (medoids_indices alg) @ [idx (heap w new)]\<rparr>) \<and>
      (distinct (medoids_indices alg) \<longrightarrow>
         set (medoids_indices (snd (swap_medoids w alg old new))) =
           insert (idx (heap w new)) (set (medoids_indices alg) - {idx (heap w old)})))"
  by (simp add: swap_medoids_def list_remove_def)

theorem swap_medoids_result_witness:
  "idx (heap example_world 2) \<notin> set (medoids_indices example_alg) \<and>
   swap_medoids example_world example_alg 2 3 = (Inl remove_error, example_alg) \<and>
   idx (heap example_world 1) \<in> set (medoids_indices example_alg) \<and>
   distinct (medoids_indices example_alg) \<and>
   swap_medoids example_world example_alg 1 3 =
     (Inr (), example_alg\<lparr>medoids_indices := [0, 3]\<rparr>) \<and>
   set (medoids_indices (snd (swap_medoids example_world example_alg 1 3))) = {0, 3}"
  using swap_medoids_result [of example_world 2 example_alg 3]
    swap_medoids_result [of example_world 1 example_alg 3]
  by (auto simp add: example_world_def example_alg_def Point_init_def)

text \<open>
  C7, as the code has it. A non-empty labels list whose length differs from the cluster
  count makes construction raise the labels error with the random generator untouched,
  so before any sampling. Labels of exactly that length, an empty labels list and no
  labels never raise this error.
\<close>

theorem init_labels_check:
  "(ls \<noteq> [] \<and> int (length ls) \<noteq> k \<longrightarrow>
      KMedoidsAlgorithm_init w pts k (Some ls) g = (Inl labels_error, g)) \<and>
   (int (length ls) = k \<longrightarrow>
      fst (KMedoidsAlgorithm_init w pts k (Some ls) g) \<noteq> Inl labels_error) \<and>
   fst (KMedoidsAlgorithm_init w pts k (Some []) g) \<noteq> Inl labels_error \<and>
   fst (KMedoidsAlgorithm_init w pts k None g) \<noteq> Inl labels_error"
proof -
  have ok: "fst (KMedoidsAlgorithm_init w pts k l g) \<noteq> Inl labels_error"
    if c: "\<not> (truthy l \<and> labels_len l \<noteq> k)" for l
  proof (cases "0 \<le> k \<and> k \<le> int (length pts)")
    case True
    with init_good [OF c, of pts w g] show ?thesis by simp
  next
    case False
    then have "k < 0 \<or> int (length pts) < k" by arith
    from init_bad_count [OF c this, of w g] errors_differ show ?thesis by simp
  qed
  have 1: "ls \<noteq> [] \<and> int (length ls) \<noteq> k \<longrightarrow>
      KMedoidsAlgorithm_init w pts k (Some ls) g = (Inl labels_error, g)"
    using init_labels_mismatch [of "Some ls" k w pts g]
    by (simp add: truthy_def labels_len_def)
  have 2: "int (length ls) = k \<longrightarrow>
      fst (KMedoidsAlgorithm_init w pts k (Some ls) g) \<noteq> Inl labels_error"
    using ok [of "Some ls"] by (simp add: truthy_def labels_len_def)
  have 3: "fst (KMedoidsAlgorithm_init w pts k (Some []) g) \<noteq> Inl labels_error"
    using ok [of "Some []"] by (simp add: truthy_def)
  have 4: "fst (KMedoidsAlgorithm_init w pts k None g) \<noteq> Inl labels_error"
    using ok [of None] by (simp add: truthy_def)
  from 1 2 3 4 show ?thesis by blast
qed

theorem init_labels_check_witness:
  "[''left''] \<noteq> [] \<and> int (length [''left'']) \<noteq> 2 \<and>
   KMedoidsAlgorithm_init example_world [0, 1, 2, 3] 2 (Some [''left'']) (\<lambda>i. i) =
     (Inl labels_error, \<lambda>i. i) \<and>
   int (length [''left'', ''right'']) = 2 \<and>
   fst (KMedoidsAlgorithm_init example_world [0, 1, 2, 3] 2 (Some [''left'', ''right''])
          (\<lambda>i. i)) \<noteq> Inl labels_error"
  using init_labels_check [of "[''left'']" 2 example_world "[0, 1, 2, 3]" "\<lambda>i. i"]
    init_labels_check [of "[''left'', ''right'']" 2 example_world "[0, 1, 2, 3]" "\<lambda>i. i"]
  by simp

text \<open>
  C7 as stated fails: the empty list is a supplied labels sequence whose length
  differs from a cluster count of 2, and construction succeeds and samples medoids.
\<close>

theorem init_accepts_empty_labels:
  "Some ([]::string list) \<noteq> None \<and> int (length ([]::string list)) \<noteq> 2 \<and>
   fst (KMedoidsAlgorithm_init example_world [0, 1, 2, 3] 2 (Some []) (\<lambda>i. i)) =
     Inr \<lparr>points = [0, 1, 2, 3], clusters_num = 2, labels = Some [],
          medoids_indices = [0, 1]\<rparr>"
  by (simp add: KMedoidsAlgorithm_init_def get_initial_medoids_indices_def random_sample_def
      truthy_def example_world_def Point_init_def numeral_2_eq_2 randbelow_def Let_def)

text \<open>
  C8, as the code has it. With labels that pass the guard, a cluster count that is
  negative or greater than the number of points makes construction raise the sampling
  error; a cluster count from 0 to the number of points makes it succeed, and
  \<open>medoids_indices\<close> then holds that many identifiers taken without replacement from
  the identifiers of the points.
\<close>

theorem init_cluster_count:
  assumes "\<not> (truthy ls \<and> labels_len ls \<noteq> k)"
  shows "(k < 0 \<or> int (length pts) < k \<longrightarrow>
            KMedoidsAlgorithm_init w pts k ls g = (Inl sample_error, g)) \<and>
         (0 \<le> k \<and> k \<le> int (length pts) \<longrightarrow>
            (\<exists>alg. fst (KMedoidsAlgorithm_init w pts k ls g) = Inr alg \<and>
                   points alg = pts \<and> clusters_num alg = k \<and> labels alg = ls \<and>
                   int (length (medoids_indices alg)) = k \<and>
                   mset (medoids_indices alg) \<subseteq>#
                     mset (map (\<lambda>point. idx (heap w point)) pts)))"
proof (intro conjI impI)
  assume "k < 0 \<or> int (length pts) < k"
  from init_bad_count [OF assms this]
  show "KMedoidsAlgorithm_init w pts k ls g = (Inl sample_error, g)" .
next
  assume k: "0 \<le> k \<and> k \<le> int (length pts)"
  let ?ids = "map (\<lambda>point. idx (heap w point)) pts"
  from k have "nat k \<le> length ?ids" by auto
  from sample_pool_props [OF this, of g] k
  have "int (length (fst (sample_pool ?ids (nat k) g))) = k"
    and "mset (fst (sample_pool ?ids (nat k) g)) \<subseteq># mset ?ids" by simp_all
  with init_good [OF assms, of pts w g] k
  show "\<exists>alg. fst (KMedoidsAlgorithm_init w pts k ls g) = Inr alg \<and>
                   points alg = pts \<and> clusters_num alg = k \<and> labels alg = ls \<and>
                   int (length (medoids_indices alg)) = k \<and>
                   mset (medoids_indices alg) \<subseteq># mset ?ids"
    by simp
qed

theorem init_cluster_count_witness:
  "\<not> (truthy None \<and> labels_len None \<noteq> 5) \<and> int (length [0, 1, 2, 3::nat]) < 5 \<and>
   KMedoidsAlgorithm_init example_world [0, 1, 2, 3] 5 None (\<lambda>i. i) =
     (Inl sample_error, \<lambda>i. i) \<and>
   \<not> (truthy None \<and> labels_len None \<noteq> - 1) \<and> (- 1::int) < 0 \<and>
   KMedoidsAlgorithm_init example_world [0, 1, 2, 3] (- 1) None (\<lambda>i. i) =
     (Inl sample_error, \<lambda>i. i) \<and>
   \<not> (truthy None \<and> labels_len None \<noteq> 2) \<and> (0::int) \<le> 2 \<and> 2 \<le> int (length [0, 1, 2, 3::nat]) \<and>
   fst (KMedoidsAlgorithm_init example_world [0, 1, 2, 3] 2 None (\<lambda>i. i)) = Inr example_alg \<and>
   mset (medoids_indices example_alg) \<subseteq>#
     mset (map (\<lambda>point. idx (heap example_world point)) [0, 1, 2, 3])"
proof -
  have t: "\<And>k. \<not> (truthy None \<and> labels_len None \<noteq> k)" by (simp add: truthy_def)
  from init_cluster_count [OF t, of 5 "[0, 1, 2, 3]" example_world "\<lambda>i. i"]
    init_cluster_count [OF t, of "- 1" "[0, 1, 2, 3]" example_world "\<lambda>i. i"]
    init_cluster_count [OF t, of 2 "[0, 1, 2, 3]" example_world "\<lambda>i. i"]
    example_construction t
  show ?thesis by auto
qed

text \<open>
  C8 as stated fails: the cluster count 0 is non-positive, and construction succeeds
  with an empty medoid list.
\<close>

theorem init_accepts_zero_clusters:
  "(0::int) \<le> 0 \<and>
   fst (KMedoidsAlgorithm_init example_world [0, 1, 2, 3] 0 None (\<lambda>i. i)) =
     Inr \<lparr>points = [0, 1, 2, 3], clusters_num = 0, labels = None, medoids_indices = []\<rparr>"
  by (simp add: KMedoidsAlgorithm_init_def get_initial_medoids_indices_def random_sample_def
      truthy_def)

section \<open>The result table\<close>














lemma map_of_keyed_none: "c \<notin> set ks \<Longrightarrow> map_of (map (\<lambda>c. (c, f c)) ks) c = None"
  by (induction ks) auto










end
